theory Spec2Isabelle
  imports Main
begin

section \<open>The platform the controllers run on\<close>

text \<open>
  The controllers are Stimulus controllers written in TypeScript. Everything they do
  goes through the browser: the DOM, the JavaScript engine and the Stimulus runtime.
  The model keeps the control flow of every controller method as it is written and
  makes the platform explicit:
  \<^item> an exception is a value of type \<open>error\<close>; a computation that may throw returns
    \<open>error + 'a\<close>, with \<open>Inl\<close> for the exception;
  \<^item> a JavaScript value is \<open>undefined\<close>, \<open>null\<close>, or something else (\<open>Val v\<close>);
    what the engine does with the values other than \<open>undefined\<close> and \<open>null\<close>
    (\<open>JSON.parse\<close>, reading a property, calling \<open>toString()\<close>) is a parameter of the
    model, so a statement about an arbitrary engine \<open>E\<close> holds for whatever the
    engine does there;
  \<^item> a string is a \<open>char list\<close>, its characters being bytes.
\<close>

datatype error =
    SyntaxError            \<comment> \<open>\<open>JSON.parse\<close> on a text that is not JSON\<close>
  | TypeError              \<comment> \<open>a property read on \<open>undefined\<close> or \<open>null\<close>, a call of a non-function\<close>
  | MissingTarget string   \<comment> \<open>Stimulus: the singular target property of a target that is absent\<close>

datatype 'v js = Undefined | Null | Val 'v

record 'v engine =
  JSON_parse :: "string \<Rightarrow> error + 'v js"
  get_property :: "'v \<Rightarrow> string \<Rightarrow> 'v js"
  toString :: "'v \<Rightarrow> error + string"

text \<open>
  \<open>x[k]\<close>: reading a property of \<open>undefined\<close> or \<open>null\<close> throws a TypeError; on any
  other value the engine finds the property (or \<open>undefined\<close>).
\<close>

definition js_index :: "'v engine \<Rightarrow> 'v js \<Rightarrow> string \<Rightarrow> error + 'v js" where
  "js_index E x k = (case x of Val v \<Rightarrow> Inr (get_property E v k) | _ \<Rightarrow> Inl TypeError)"

section \<open>Score Display Initializer\<close>

text \<open>
  A selection control, as far as the controller touches it: the attribute
  \<open>data-form-id\<close> (\<open>getAttribute\<close> returns \<open>null\<close>, here \<open>None\<close>, when the attribute is
  absent) and the \<open>value\<close> property, which the controller only writes. The model
  keeps the string that was assigned to \<open>value\<close>; which option the control then shows
  is the page's matter. The field is called \<open>sel_value\<close> because \<open>value\<close> is a keyword
  of the theory language.
\<close>

record select_element =
  data_form_id :: "string option"
  sel_value :: string

text \<open>
  The body of the \<open>try\<close> block for one control. Each branch ends in one assignment
  to \<open>selectElement.value\<close>, so the result is either the control after that
  assignment or the exception thrown before it. \<open>JSON.parse\<close> runs first, also for a
  control without \<open>data-form-id\<close>; \<open>!formId\<close> is true for \<open>null\<close> and for the empty
  string.
\<close>

definition try_body :: "'v engine \<Rightarrow> string \<Rightarrow> select_element \<Rightarrow> error + select_element" where
  "try_body E scoreValue selectElement =
     (case JSON_parse E scoreValue of
        Inl e \<Rightarrow> Inl e
      | Inr eventScores \<Rightarrow>
          (case data_form_id selectElement of
             None \<Rightarrow> Inr (selectElement\<lparr>sel_value := ''0''\<rparr>)
           | Some formId \<Rightarrow>
               if formId = [] then Inr (selectElement\<lparr>sel_value := ''0''\<rparr>)
               else
                 (case js_index E eventScores formId of
                    Inl e \<Rightarrow> Inl e
                  | Inr Undefined \<Rightarrow> Inr (selectElement\<lparr>sel_value := ''0''\<rparr>)
                  | Inr Null \<Rightarrow> Inr (selectElement\<lparr>sel_value := ''0''\<rparr>)
                  | Inr (Val formScore) \<Rightarrow>
                      (case toString E formScore of
                         Inl e \<Rightarrow> Inl e
                       | Inr s \<Rightarrow> Inr (selectElement\<lparr>sel_value := s\<rparr>)))))"

text \<open>
  The callback of \<open>forEach\<close>: the \<open>try\<close> block, and the \<open>catch\<close> block that sets the
  control to \<open>"0"\<close> whatever was thrown.
\<close>

definition connect_select :: "'v engine \<Rightarrow> string \<Rightarrow> select_element \<Rightarrow> select_element" where
  "connect_select E scoreValue selectElement =
     (case try_body E scoreValue selectElement of
        Inl e \<Rightarrow> selectElement\<lparr>sel_value := ''0''\<rparr>
      | Inr selectElement' \<Rightarrow> selectElement')"

text \<open>
  \<open>connect()\<close>: the callback runs once for every select target, in order.
\<close>

definition connect :: "'v engine \<Rightarrow> string \<Rightarrow> select_element list \<Rightarrow> select_element list" where
  "connect E scoreValue selectTargets = map (connect_select E scoreValue) selectTargets"

subsection \<open>The browser's engine on the score maps of the scenarios\<close>

text \<open>
  To run the initializer, the engine is filled in as far as the scenarios go, and no
  further: what is not written out here is a parameter (\<open>unmodelled\<close>), so the engine
  below is the browser's for whatever the browser does in the cases left open.

  \<^item> A value that \<open>JSON.parse\<close> returns is an integer, an object, or something else
    (\<open>JOther\<close>: a string, a boolean, an array, any other number). \<open>JInteger n\<close> is the
    number \<open>n\<close> for a safe integer \<open>n\<close> (at most \<open>2^53 - 1\<close> in magnitude). An object is
    the list of its own properties, the first binding of a key being the property.
  \<^item> Besides these, a property read can return a member that every object inherits
    from \<open>Object.prototype\<close>: one of its built-in functions, or, under \<open>__proto__\<close>,
    \<open>Object.prototype\<close> itself. The names are those of a page that has added nothing
    to \<open>Object.prototype\<close>.
  \<^item> \<open>JSON.parse\<close> is written out on the texts of the scenarios: the empty text is
    not JSON, and four texts have the values shown.
  \<^item> \<open>x[k]\<close> on a parsed object is its own property \<open>k\<close> when it has one, and the
    inherited member otherwise.
  \<^item> \<open>x.toString()\<close> prints a safe integer in decimal; on a parsed object it is
    \<open>"[object Object]"\<close>, unless the object has an own property \<open>toString\<close>, which is
    never a function, so that the call throws; on \<open>Object.prototype\<close> it is
    \<open>"[object Object]"\<close>; on a built-in function it is the engine's text for that
    function (\<open>native_text\<close>; in V8 \<open>function Object() { [native code] }\<close> for the
    function \<open>Object\<close>).
\<close>

datatype 'a json =
    JInteger int
  | JObject "(string \<times> 'a json js) list"
  | JOther 'a

datatype 'a jsvalue =
    Parsed "'a json"
  | NativeFunction string
  | ObjectPrototype

record 'a unmodelled =
  parse_rest :: "string \<Rightarrow> error + 'a jsvalue js"
  get_rest :: "'a jsvalue \<Rightarrow> string \<Rightarrow> 'a jsvalue js"
  toString_rest :: "'a jsvalue \<Rightarrow> error + string"
  native_text :: "string \<Rightarrow> string"

definition Object_prototype :: "string \<Rightarrow> 'a jsvalue js" where
  "Object_prototype k =
     (if k = ''constructor'' then Val (NativeFunction ''Object'')
      else if k = ''__proto__'' then Val ObjectPrototype
      else if k \<in> set [''__defineGetter__'', ''__defineSetter__'', ''hasOwnProperty'',
                        ''__lookupGetter__'', ''__lookupSetter__'', ''isPrototypeOf'',
                        ''propertyIsEnumerable'', ''toString'', ''valueOf'', ''toLocaleString'']
      then Val (NativeFunction k)
      else Undefined)"

definition browser_get :: "'a unmodelled \<Rightarrow> 'a jsvalue \<Rightarrow> string \<Rightarrow> 'a jsvalue js" where
  "browser_get U v k =
     (case v of
        Parsed (JObject props) \<Rightarrow>
          (case map_of props k of
             Some x \<Rightarrow> map_js Parsed x
           | None \<Rightarrow> Object_prototype k)
      | _ \<Rightarrow> get_rest U v k)"

definition digit :: "nat \<Rightarrow> char" where
  "digit n = ''0123456789'' ! (n mod 10)"

fun digits :: "nat \<Rightarrow> string" where
  "digits n = (if n < 10 then [digit n] else digits (n div 10) @ [digit n])"

definition decimal :: "int \<Rightarrow> string" where
  "decimal n = (if n < 0 then CHR ''-'' # digits (nat (- n)) else digits (nat n))"

definition safe_integer :: "int \<Rightarrow> bool" where
  "safe_integer n = (- 9007199254740991 \<le> n \<and> n \<le> 9007199254740991)"

definition browser_toString :: "'a unmodelled \<Rightarrow> 'a jsvalue \<Rightarrow> error + string" where
  "browser_toString U v =
     (case v of
        Parsed (JInteger n) \<Rightarrow> if safe_integer n then Inr (decimal n) else toString_rest U v
      | Parsed (JObject props) \<Rightarrow>
          (case map_of props ''toString'' of
             None \<Rightarrow> Inr ''[object Object]''
           | Some x \<Rightarrow> Inl TypeError)
      | Parsed (JOther x) \<Rightarrow> toString_rest U v
      | NativeFunction name \<Rightarrow> Inr (native_text U name)
      | ObjectPrototype \<Rightarrow> Inr ''[object Object]'')"

definition browser_parse :: "'a unmodelled \<Rightarrow> string \<Rightarrow> error + 'a jsvalue js" where
  \<open>browser_parse U s =
     (if s = [] then Inl SyntaxError
      else if s = ''{}'' then Inr (Val (Parsed (JObject [])))
      else if s = ''{"evt-1": 3}'' then Inr (Val (Parsed (JObject [(''evt-1'', Val (JInteger 3))])))
      else if s = ''{"evt-1": null}'' then Inr (Val (Parsed (JObject [(''evt-1'', Null)])))
      else if s = ''null'' then Inr Null
      else parse_rest U s)\<close>

definition browser :: "'a unmodelled \<Rightarrow> 'a jsvalue engine" where
  "browser U =
     \<lparr>JSON_parse = browser_parse U, get_property = browser_get U, toString = browser_toString U\<rparr>"

section \<open>Score Entry Form\<close>

text \<open>
  The elements the controller reaches through its targets: a field and the form
  contribute their \<open>id\<close> and \<open>value\<close> (here \<open>elem_id\<close> and \<open>elem_value\<close>), the button its
  background colour. A Stimulus controller has, for a target name \<open>x\<close>, the list
  \<open>xTargets\<close> of the elements in its scope that carry the target; \<open>hasXTarget\<close> says
  whether the list has an element, and \<open>xTarget\<close> is its first element, or throws
  \<open>Missing target element\<close> when there is none. \<open>statusValue\<close> is the text of the
  controller's \<open>status\<close> data attribute, so it is whatever the page was rendered with
  until the controller writes it.
\<close>

record element =
  elem_id :: string
  elem_value :: string

record button =
  backgroundColor :: string

record score_set =
  fieldTargets :: "element list"
  formTargets :: "element list"
  buttonTargets :: "button list"
  statusValue :: string

definition target :: "string \<Rightarrow> 'a list \<Rightarrow> error + 'a" where
  "target name targets = (case targets of [] \<Rightarrow> Inl (MissingTarget name) | t # ts \<Rightarrow> Inr t)"

definition hasTarget :: "'a list \<Rightarrow> bool" where
  "hasTarget targets = (targets \<noteq> [])"

subsection \<open>The submission envelope\<close>

text \<open>
  \<open>split_where\<close> cuts a string at every character that is a separator; the pieces
  between two separators, before the first and after the last are all kept, empty or
  not. \<open>val.id.split("-")\<close> is \<open>split_on CHR ''-''\<close>.
\<close>

fun split_where :: "(char \<Rightarrow> bool) \<Rightarrow> string \<Rightarrow> string list" where
  "split_where sep [] = [[]]"
| "split_where sep (c # cs) =
     (if sep c then [] # split_where sep cs
      else (case split_where sep cs of
              w # ws \<Rightarrow> (c # w) # ws
            | [] \<Rightarrow> [[c]]))"

definition split_on :: "char \<Rightarrow> string \<Rightarrow> string list" where
  "split_on sep s = split_where (\<lambda>c. c = sep) s"

text \<open>
  \<open>xs[i]\<close> is \<open>undefined\<close> (here \<open>None\<close>) past the end of the array, and \<open>undefined\<close> used
  as a property key is the key \<open>"undefined"\<close>.
\<close>

definition at :: "'a list \<Rightarrow> nat \<Rightarrow> 'a option" where
  "at xs i = (if i < length xs then Some (xs ! i) else None)"

definition property_key :: "string option \<Rightarrow> string" where
  "property_key k = (case k of None \<Rightarrow> ''undefined'' | Some s \<Rightarrow> s)"

text \<open>
  \<open>obj\<close> starts as the object literal \<open>{}\<close>; it is modelled by its own properties, a
  map from keys to strings. \<open>obj[k] = v\<close> creates or overwrites the own property \<open>k\<close>,
  for every key but one: the key \<open>__proto__\<close> is an accessor that \<open>{}\<close> inherits from
  \<open>Object.prototype\<close>, the assignment calls its setter, and the setter does nothing
  when the value is a string. So that assignment leaves the own properties as they
  were.
\<close>

definition obj_set :: "(string \<rightharpoonup> string) \<Rightarrow> string \<Rightarrow> string \<Rightarrow> (string \<rightharpoonup> string)" where
  "obj_set obj k v = (if k = ''__proto__'' then obj else obj(k \<mapsto> v))"

definition form_id :: "element \<Rightarrow> string" where
  "form_id val = property_key (at (split_on CHR ''-'' (elem_id val)) 3)"

text \<open>
  The \<open>forEach\<close> loop of \<open>submit()\<close>, from the empty object.
\<close>

definition collect :: "element list \<Rightarrow> (string \<rightharpoonup> string)" where
  "collect vals = foldl (\<lambda>obj val. obj_set obj (form_id val) (elem_value val)) Map.empty vals"

record scoreUpdate =
  event_id :: string
  scores :: "string \<rightharpoonup> string"

text \<open>
  \<open>submit()\<close> returns the detail of the \<open>scoreUpdate\<close> event it dispatches and the
  controller afterwards. \<open>this.formTarget\<close> is read while the event is built, so
  without a form target nothing is dispatched. The button turns yellow and the status
  becomes pending only under \<open>hasButtonTarget\<close>.
\<close>

definition submit :: "score_set \<Rightarrow> error + (scoreUpdate \<times> score_set)" where
  "submit c =
     (let obj = collect (fieldTargets c) in
      case target ''form'' (formTargets c) of
        Inl e \<Rightarrow> Inl e
      | Inr formTarget \<Rightarrow>
          (let detail = \<lparr>event_id = elem_id formTarget, scores = obj\<rparr> in
           if hasTarget (buttonTargets c) then
             (case target ''button'' (buttonTargets c) of
                Inl e \<Rightarrow> Inl e
              | Inr buttonTarget \<Rightarrow>
                  Inr (detail,
                       c\<lparr>buttonTargets := buttonTarget\<lparr>backgroundColor := ''yellow''\<rparr> # tl (buttonTargets c),
                         statusValue := ''pending''\<rparr>))
           else Inr (detail, c)))"

subsection \<open>The completion signal\<close>

text \<open>
  The listener that \<open>connect()\<close> registers for \<open>scoreUpdateSubmitted\<close>. It reads
  \<open>this.buttonTarget\<close> without asking \<open>hasButtonTarget\<close> first.
\<close>

definition on_scoreUpdateSubmitted :: "score_set \<Rightarrow> error + score_set" where
  "on_scoreUpdateSubmitted c =
     (if statusValue c = ''pending'' then
        (case target ''button'' (buttonTargets c) of
           Inl e \<Rightarrow> Inl e
         | Inr buttonTarget \<Rightarrow>
             Inr (c\<lparr>buttonTargets := buttonTarget\<lparr>backgroundColor := ''green''\<rparr> # tl (buttonTargets c),
                    statusValue := ''completed''\<rparr>))
      else Inr c)"

text \<open>
  Every mounted controller has its own listener on the document, and the event has no
  detail that names a form. The browser calls the listeners one after the other; an
  exception thrown by one of them is reported and does not stop the others, and the
  controller whose listener threw before writing anything is as it was.
\<close>

definition deliver :: "score_set \<Rightarrow> score_set" where
  "deliver c = (case on_scoreUpdateSubmitted c of Inl e \<Rightarrow> c | Inr c' \<Rightarrow> c')"

definition dispatch_scoreUpdateSubmitted :: "score_set list \<Rightarrow> score_set list" where
  "dispatch_scoreUpdateSubmitted controllers = map deliver controllers"

subsection \<open>The envelope in the words of the specification\<close>

text \<open>
  The specification describes the identifier of a field as the 4th colon/dash-delimited
  segment of its id, and the envelope as the mapping from every field's identifier to
  its value, a later field overwriting an earlier one. These two definitions follow
  those words: colon and dash both delimit, and every assignment makes an entry. They
  are compared with \<open>form_id\<close> and \<open>collect\<close> below.
\<close>

definition claimed_form_id :: "element \<Rightarrow> string" where
  "claimed_form_id val =
     property_key (at (split_where (\<lambda>c. c = CHR '':'' \<or> c = CHR ''-'') (elem_id val)) 3)"

definition claimed_scores :: "element list \<Rightarrow> (string \<rightharpoonup> string)" where
  "claimed_scores vals =
     foldl (\<lambda>obj val. obj(claimed_form_id val \<mapsto> elem_value val)) Map.empty vals"

subsection \<open>Forms of the scenarios\<close>

text \<open>
  \<open>scenario_form\<close> is the form of the submission scenario, with a button.
  \<open>colon_form\<close> has a field whose id holds a colon and a field whose 4th segment is
  \<open>__proto__\<close>. \<open>form_without_form_target\<close> is the form of the scenario with no
  element carrying the form target. \<open>pending_without_button\<close> was rendered with the
  status \<open>pending\<close> and has no button target; \<open>pending_with_button\<close> is pending after
  its own submission.
\<close>

definition scenario_form :: score_set where
  "scenario_form =
     \<lparr>fieldTargets =
        [\<lparr>elem_id = ''row-a-b-evt1'', elem_value = ''5''\<rparr>,
         \<lparr>elem_id = ''row-a-b-evt2'', elem_value = ''2''\<rparr>],
      formTargets = [\<lparr>elem_id = ''evt'', elem_value = []\<rparr>],
      buttonTargets = [\<lparr>backgroundColor = []\<rparr>],
      statusValue = ''completed''\<rparr>"

definition colon_form :: score_set where
  "colon_form =
     \<lparr>fieldTargets =
        [\<lparr>elem_id = ''row:a-b-c-evt1'', elem_value = ''5''\<rparr>,
         \<lparr>elem_id = ''row-a-b-__proto__'', elem_value = ''2''\<rparr>],
      formTargets = [\<lparr>elem_id = ''evt'', elem_value = []\<rparr>],
      buttonTargets = [],
      statusValue = ''completed''\<rparr>"

definition form_without_form_target :: score_set where
  "form_without_form_target =
     \<lparr>fieldTargets =
        [\<lparr>elem_id = ''row-a-b-evt1'', elem_value = ''5''\<rparr>,
         \<lparr>elem_id = ''row-a-b-evt2'', elem_value = ''2''\<rparr>],
      formTargets = [],
      buttonTargets = [\<lparr>backgroundColor = []\<rparr>],
      statusValue = ''completed''\<rparr>"

definition pending_without_button :: score_set where
  "pending_without_button =
     \<lparr>fieldTargets = [\<lparr>elem_id = ''row-a-b-evt1'', elem_value = ''5''\<rparr>],
      formTargets = [\<lparr>elem_id = ''evt'', elem_value = []\<rparr>],
      buttonTargets = [],
      statusValue = ''pending''\<rparr>"

definition pending_with_button :: score_set where
  "pending_with_button =
     \<lparr>fieldTargets = [\<lparr>elem_id = ''row-a-b-evt2'', elem_value = ''2''\<rparr>],
      formTargets = [\<lparr>elem_id = ''evt'', elem_value = []\<rparr>],
      buttonTargets = [\<lparr>backgroundColor = ''yellow''\<rparr>],
      statusValue = ''pending''\<rparr>"

section \<open>Status Banner\<close>

text \<open>
  The banner is the controller's element; the listener for \<open>updateStatus\<close> assigns
  \<open>e.detail.status\<close> to its \<open>innerHTML\<close>. The model keeps the markup that was
  assigned.
\<close>

record banner =
  innerHTML :: string

record updateStatus =
  status :: string

definition on_updateStatus :: "banner \<Rightarrow> updateStatus \<Rightarrow> banner" where
  "on_updateStatus element detail = element\<lparr>innerHTML := status detail\<rparr>"

definition deliver_all :: "banner \<Rightarrow> updateStatus list \<Rightarrow> banner" where
  "deliver_all element events = foldl on_updateStatus element events"

section \<open>Filter/Redirect Coordinator\<close>

text \<open>
  \<open>URLSearchParams\<close> is a list of name-value pairs. Its constructor drops one leading
  \<open>?\<close>, cuts the text at every \<open>&\<close>, skips the empty pieces, cuts each piece at its
  first \<open>=\<close> (a piece without \<open>=\<close> has the empty value) and decodes name and value;
  \<open>toString()\<close> encodes both and joins the pairs with \<open>=\<close> and \<open>&\<close>. How a name or a
  value is decoded and encoded (plus signs, percent escapes, UTF-8) is the
  \<open>codec\<close>, a parameter of the model.
\<close>

record codec =
  decode :: "string \<Rightarrow> string"
  encode :: "string \<Rightarrow> string"

type_synonym search_params = "(string \<times> string) list"

definition strip_question :: "string \<Rightarrow> string" where
  "strip_question init = (case init of c # cs \<Rightarrow> if c = CHR ''?'' then cs else init | [] \<Rightarrow> [])"

definition name_value :: "codec \<Rightarrow> string \<Rightarrow> string \<times> string" where
  "name_value C piece =
     (decode C (takeWhile (\<lambda>c. c \<noteq> CHR ''='') piece),
      decode C (drop 1 (dropWhile (\<lambda>c. c \<noteq> CHR ''='') piece)))"

definition URLSearchParams :: "codec \<Rightarrow> string \<Rightarrow> search_params" where
  "URLSearchParams C init =
     map (name_value C) (filter (\<lambda>piece. piece \<noteq> []) (split_on CHR ''&'' (strip_question init)))"

text \<open>
  \<open>set(name, value)\<close> gives the first pair called \<open>name\<close> the new value and removes
  the other pairs called \<open>name\<close>; when there is none it appends the pair.
  \<open>delete(name)\<close> removes every pair called \<open>name\<close>.
\<close>

fun set_first :: "string \<Rightarrow> string \<Rightarrow> search_params \<Rightarrow> search_params" where
  "set_first name v [] = []"
| "set_first name v (p # ps) =
     (if fst p = name then (name, v) # filter (\<lambda>q. fst q \<noteq> name) ps
      else p # set_first name v ps)"

definition params_set :: "string \<Rightarrow> string \<Rightarrow> search_params \<Rightarrow> search_params" where
  "params_set name v ps =
     (if name \<in> set (map fst ps) then set_first name v ps else ps @ [(name, v)])"

definition params_delete :: "string \<Rightarrow> search_params \<Rightarrow> search_params" where
  "params_delete name ps = filter (\<lambda>q. fst q \<noteq> name) ps"

fun join :: "string \<Rightarrow> string list \<Rightarrow> string" where
  "join sep [] = []"
| "join sep [x] = x"
| "join sep (x # y # ys) = x @ sep @ join sep (y # ys)"

definition params_toString :: "codec \<Rightarrow> search_params \<Rightarrow> string" where
  "params_toString C ps = join ''&'' (map (\<lambda>p. encode C (fst p) @ ''='' @ encode C (snd p)) ps)"

text \<open>
  \<open>filter()\<close>, in two steps: the parameters after \<open>set\<close> or \<open>delete\<close>, and the detail of
  the \<open>doSafeScoreRedirect\<close> event built from them. \<open>search\<close> is \<open>location.search\<close>.
\<close>

definition filter_params :: "codec \<Rightarrow> string \<Rightarrow> string \<Rightarrow> string \<Rightarrow> search_params" where
  "filter_params C search keyValue valueValue =
     (let params = URLSearchParams C search in
      if valueValue \<noteq> ''all'' then params_set keyValue valueValue params
      else params_delete keyValue params)"

record doSafeScoreRedirect =
  params :: string

definition filter_action :: "codec \<Rightarrow> string \<Rightarrow> string \<Rightarrow> string \<Rightarrow> doSafeScoreRedirect" where
  "filter_action C search keyValue valueValue =
     \<lparr>params = ''?'' @ params_toString C (filter_params C search keyValue valueValue)\<rparr>"

subsection \<open>The codec on bytes\<close>

text \<open>
  The \<open>application/x-www-form-urlencoded\<close> codec on byte strings: a space is written
  \<open>+\<close>, a letter, a digit and \<open>* - . _\<close> stand for themselves, every other byte is
  written \<open>%\<close> and two hexadecimal digits. It is the browser's codec as long as the
  text is ASCII, and it is what the scenarios run on.
\<close>

definition hex_digit :: "nat \<Rightarrow> char" where
  "hex_digit n = ''0123456789ABCDEF'' ! (n mod 16)"

definition hex_value :: "char \<Rightarrow> nat option" where
  "hex_value c =
     (let n = (of_char c :: nat) in
      if 48 \<le> n \<and> n \<le> 57 then Some (n - 48)
      else if 65 \<le> n \<and> n \<le> 70 then Some (n - 55)
      else if 97 \<le> n \<and> n \<le> 102 then Some (n - 87)
      else None)"

definition unreserved :: "char \<Rightarrow> bool" where
  "unreserved c =
     (let n = (of_char c :: nat) in
      (48 \<le> n \<and> n \<le> 57) \<or> (65 \<le> n \<and> n \<le> 90) \<or> (97 \<le> n \<and> n \<le> 122)
      \<or> c = CHR ''*'' \<or> c = CHR ''-'' \<or> c = CHR ''.'' \<or> c = CHR ''_'')"

definition encode_byte :: "char \<Rightarrow> string" where
  "encode_byte c =
     (if c = CHR '' '' then ''+''
      else if unreserved c then [c]
      else [CHR ''%'', hex_digit (of_char c div 16), hex_digit (of_char c mod 16)])"

fun percent_decode :: "string \<Rightarrow> string" where
  "percent_decode (c # h # l # cs) =
     (if c = CHR ''%'' then
        (case (hex_value h, hex_value l) of
           (Some a, Some b) \<Rightarrow> char_of (16 * a + b) # percent_decode cs
         | _ \<Rightarrow> c # percent_decode (h # l # cs))
      else c # percent_decode (h # l # cs))"
| "percent_decode (c # cs) = c # percent_decode cs"
| "percent_decode [] = []"

definition urlencoded :: codec where
  "urlencoded =
     \<lparr>decode = (\<lambda>s. percent_decode (map (\<lambda>c. if c = CHR ''+'' then CHR '' '' else c) s)),
      encode = (\<lambda>s. concat (map encode_byte s))\<rparr>"

section \<open>Properties of the Score Display Initializer\<close>

text \<open>
  The callback writes the \<open>value\<close> of its control and nothing else, and what it writes
  does not depend on the value the control had.
\<close>

lemma data_form_id_connect_select:
  "data_form_id (connect_select E s sel) = data_form_id sel"
  by (auto simp: connect_select_def try_body_def split: sum.splits option.splits js.splits)

lemma connect_select_prior:
  "connect_select E s (sel\<lparr>sel_value := v\<rparr>) = connect_select E s sel"
  by (auto simp: connect_select_def try_body_def split: sum.splits option.splits js.splits)

lemma connect_select_shape:
  "connect_select E s sel = sel\<lparr>sel_value := sel_value (connect_select E s sel)\<rparr>"
  by (auto simp: connect_select_def try_body_def split: sum.splits option.splits js.splits)

lemma connect_select_idem:
  "connect_select E s (connect_select E s sel) = connect_select E s sel"
  by (metis connect_select_prior connect_select_shape)

lemma try_body_parse_error:
  "JSON_parse E s = Inl e \<Longrightarrow> try_body E s sel = Inl e"
  by (simp add: try_body_def)

lemma connect_select_no_entry:
  assumes "JSON_parse E s = Inl e \<or>
     (\<exists>eventScores. JSON_parse E s = Inr eventScores \<and>
        (\<forall>k v. js_index E eventScores k \<noteq> Inr (Val v)))"
  shows "connect_select E s sel = sel\<lparr>sel_value := ''0''\<rparr>"
  using assms
  by (auto simp: connect_select_def try_body_def split: sum.splits option.splits js.splits)

text \<open>
  For every engine: when \<open>JSON.parse\<close> throws, the \<open>try\<close> block of every control ends
  in that exception, the \<open>catch\<close> block sets the control to \<open>"0"\<close>, and \<open>connect()\<close>
  returns normally with nothing else changed. The same values result when the parsed
  score map yields a value under no key at all.
\<close>

lemma parse_failure_gives_default:
  assumes "JSON_parse E scoreValue = Inl e"
  shows "connect E scoreValue scope = map (\<lambda>sel. sel\<lparr>sel_value := ''0''\<rparr>) scope
     \<and> try_body E scoreValue sel = Inl e"
  using assms connect_select_no_entry [of E scoreValue e]
  by (simp add: connect_def try_body_parse_error)

lemma valueless_map_gives_default:
  assumes "JSON_parse E scoreValue = Inr eventScores"
    and "\<forall>k v. js_index E eventScores k \<noteq> Inr (Val v)"
  shows "connect E scoreValue scope = map (\<lambda>sel. sel\<lparr>sel_value := ''0''\<rparr>) scope"
  using assms connect_select_no_entry [of E scoreValue] by (simp add: connect_def)

text \<open>
  For every engine, with the score map parsed, the value of a control follows what the
  property read \<open>eventScores[formId]\<close> returns: without a form identifier (no
  \<open>data-form-id\<close>, or an empty one) it is \<open>"0"\<close>; when the read returns a value that is
  neither \<open>null\<close> nor \<open>undefined\<close>, it is that value's \<open>toString()\<close>; when the read
  returns no such value, it is \<open>"0"\<close>. The code asks nowhere whether what the read
  returns is an own entry of the score map.
\<close>

lemma control_value_from_property_read:
  assumes "JSON_parse E scoreValue = Inr eventScores" and "i < length scope"
  shows "(data_form_id (scope ! i) = None \<or> data_form_id (scope ! i) = Some [] \<longrightarrow>
            sel_value (connect E scoreValue scope ! i) = ''0'')
     \<and> (\<forall>formId score str.
            data_form_id (scope ! i) = Some formId \<and> formId \<noteq> [] \<and>
            js_index E eventScores formId = Inr (Val score) \<and> toString E score = Inr str \<longrightarrow>
            sel_value (connect E scoreValue scope ! i) = str)
     \<and> (\<forall>formId.
            data_form_id (scope ! i) = Some formId \<and>
            (\<forall>score. js_index E eventScores formId \<noteq> Inr (Val score)) \<longrightarrow>
            sel_value (connect E scoreValue scope ! i) = ''0'')
     \<and> map data_form_id (connect E scoreValue scope) = map data_form_id scope"
  using assms
  by (auto simp: connect_def connect_select_def try_body_def data_form_id_connect_select
      split: sum.splits option.splits js.splits)

lemma control_value_when_toString_throws:
  assumes "JSON_parse E scoreValue = Inr eventScores"
    and "data_form_id sel = Some formId" and "formId \<noteq> []"
    and "js_index E eventScores formId = Inr (Val score)" and "toString E score = Inl e"
  shows "connect_select E scoreValue sel = sel\<lparr>sel_value := ''0''\<rparr>"
  using assms by (simp add: connect_select_def try_body_def)

subsection \<open>The scenarios in the browser\<close>

text \<open>
  The score map \<open>{"evt-1": 3}\<close> sets a control tagged \<open>evt-1\<close> to \<open>"3"\<close>, and a control
  tagged \<open>evt-9\<close> and a control without a tag to \<open>"0"\<close>. The empty text sets every
  control to \<open>"0"\<close>. An entry that is \<open>null\<close> falls back to \<open>"0"\<close>, and so does a score
  map that is \<open>null\<close> itself, where reading the entry throws.
\<close>

lemma score_and_missing_score:
  \<open>connect (browser U) ''{"evt-1": 3}''
     [\<lparr>data_form_id = Some ''evt-1'', sel_value = ''0''\<rparr>,
      \<lparr>data_form_id = Some ''evt-9'', sel_value = ''7''\<rparr>,
      \<lparr>data_form_id = None, sel_value = ''7''\<rparr>]
   = [\<lparr>data_form_id = Some ''evt-1'', sel_value = ''3''\<rparr>,
      \<lparr>data_form_id = Some ''evt-9'', sel_value = ''0''\<rparr>,
      \<lparr>data_form_id = None, sel_value = ''0''\<rparr>]\<close>
  by (simp add: connect_def connect_select_def try_body_def js_index_def browser_def
      browser_parse_def browser_get_def browser_toString_def Object_prototype_def
      safe_integer_def decimal_def digit_def)

lemma empty_text_gives_default:
  "try_body (browser U) [] \<lparr>data_form_id = Some ''evt-1'', sel_value = ''3''\<rparr> = Inl SyntaxError
   \<and> connect (browser U) []
         [\<lparr>data_form_id = Some ''evt-1'', sel_value = ''3''\<rparr>, \<lparr>data_form_id = None, sel_value = ''2''\<rparr>]
       = [\<lparr>data_form_id = Some ''evt-1'', sel_value = ''0''\<rparr>, \<lparr>data_form_id = None, sel_value = ''0''\<rparr>]"
  using parse_failure_gives_default [of "browser U" "[]" SyntaxError]
  by (simp add: browser_def browser_parse_def)

lemma null_entry_and_null_map:
  \<open>connect (browser U) ''{"evt-1": null}'' [\<lparr>data_form_id = Some ''evt-1'', sel_value = ''4''\<rparr>]
     = [\<lparr>data_form_id = Some ''evt-1'', sel_value = ''0''\<rparr>]
   \<and> try_body (browser U) ''null'' \<lparr>data_form_id = Some ''evt-1'', sel_value = ''4''\<rparr>
     = Inl TypeError
   \<and> connect (browser U) ''null'' [\<lparr>data_form_id = Some ''evt-1'', sel_value = ''4''\<rparr>]
     = [\<lparr>data_form_id = Some ''evt-1'', sel_value = ''0''\<rparr>]\<close>
  by (simp add: connect_def connect_select_def try_body_def js_index_def browser_def
      browser_parse_def browser_get_def)

text \<open>
  Claim C4 says that an empty score map, like one that does not parse, leaves every
  control of the scope at \<open>"0"\<close>. The empty score map is \<open>{}\<close>. On it a control tagged
  \<open>constructor\<close> gets the text of the function \<open>Object\<close>, and a control tagged
  \<open>__proto__\<close> gets \<open>"[object Object]"\<close>: the property read finds what the empty object
  inherits, and the code takes it for a stored score. A control tagged \<open>evt-1\<close> gets
  \<open>"0"\<close>.
\<close>

theorem empty_map_inherited_names_not_default:
  "JSON_parse (browser U) ''{}'' = Inr (Val (Parsed (JObject [])))
   \<and> connect (browser U) ''{}''
        [\<lparr>data_form_id = Some ''constructor'', sel_value = ''0''\<rparr>,
         \<lparr>data_form_id = Some ''__proto__'', sel_value = ''0''\<rparr>,
         \<lparr>data_form_id = Some ''evt-1'', sel_value = ''7''\<rparr>]
      = [\<lparr>data_form_id = Some ''constructor'', sel_value = native_text U ''Object''\<rparr>,
         \<lparr>data_form_id = Some ''__proto__'', sel_value = ''[object Object]''\<rparr>,
         \<lparr>data_form_id = Some ''evt-1'', sel_value = ''0''\<rparr>]"
  by (simp add: connect_def connect_select_def try_body_def js_index_def browser_def
      browser_parse_def browser_get_def browser_toString_def Object_prototype_def)

text \<open>
  Claim C5 says that a control whose form identifier has no entry in the parsed score
  map is set to \<open>"0"\<close>. The score map \<open>{"evt-1": 3}\<close> has the one entry \<open>evt-1\<close>. A
  control tagged \<open>evt-1\<close> gets \<open>"3"\<close>, as the claim says. A control tagged \<open>toString\<close>
  gets the text of the function \<open>toString\<close>, and a control tagged \<open>__proto__\<close> gets
  \<open>"[object Object]"\<close>, where the claim has \<open>"0"\<close> for both.
\<close>

theorem inherited_names_get_member_text:
  \<open>connect (browser U) ''{"evt-1": 3}''
     [\<lparr>data_form_id = Some ''evt-1'', sel_value = ''0''\<rparr>,
      \<lparr>data_form_id = Some ''toString'', sel_value = ''0''\<rparr>,
      \<lparr>data_form_id = Some ''__proto__'', sel_value = ''0''\<rparr>]
   = [\<lparr>data_form_id = Some ''evt-1'', sel_value = ''3''\<rparr>,
      \<lparr>data_form_id = Some ''toString'', sel_value = native_text U ''toString''\<rparr>,
      \<lparr>data_form_id = Some ''__proto__'', sel_value = ''[object Object]''\<rparr>]\<close>
  by (simp add: connect_def connect_select_def try_body_def js_index_def browser_def
      browser_parse_def browser_get_def browser_toString_def Object_prototype_def
      safe_integer_def decimal_def digit_def)

text \<open>
  Claim C6. The initializer is idempotent: for every engine, serialized score map and
  scope, running \<open>connect()\<close> on the scope it has already initialized changes nothing;
  and the values it leaves do not depend on the values the controls had before,
  whatever those were (\<open>prior\<close> overwrites them arbitrarily).
\<close>

theorem connect_idempotent:
  "connect E scoreValue (connect E scoreValue scope) = connect E scoreValue scope
   \<and> map sel_value (connect E scoreValue (map (\<lambda>sel. sel\<lparr>sel_value := prior sel\<rparr>) scope))
       = map sel_value (connect E scoreValue scope)"
  by (simp add: connect_def connect_select_idem connect_select_prior)

section \<open>Properties of the Score Entry Form\<close>

subsection \<open>Splitting and collecting\<close>

text \<open>
  The pieces of \<open>split_on\<close> hold no separator, and joined by the separator they give
  the string back: they are the segments of the string.
\<close>

lemma split_where_nonempty: "split_where sep s \<noteq> []"
  by (induction s) (auto split: list.splits)

lemma join_split_on: "join [sep] (split_on sep s) = s"
  unfolding split_on_def
proof (induction s)
  case Nil
  show ?case by simp
next
  case (Cons c cs)
  obtain w ws where "split_where (\<lambda>c. c = sep) cs = w # ws"
    using split_where_nonempty by (cases "split_where (\<lambda>c. c = sep) cs") auto
  with Cons show ?case by (cases ws) auto
qed

lemma split_on_pieces: "w \<in> set (split_on sep s) \<Longrightarrow> sep \<notin> set w"
  unfolding split_on_def
  by (induction s arbitrary: w) (auto split: list.splits if_splits)

lemma collect_snoc:
  "collect (vals @ [val]) = obj_set (collect vals) (form_id val) (elem_value val)"
  by (simp add: collect_def)

lemma collect_lookup:
  "collect vals k =
     (if k = ''__proto__'' then None
      else map_option elem_value (find (\<lambda>val. form_id val = k) (rev vals)))"
proof (induction vals arbitrary: k rule: rev_induct)
  case Nil
  show ?case by (simp add: collect_def)
next
  case (snoc val vals)
  then show ?case by (simp add: collect_snoc obj_set_def)
qed

subsection \<open>submit()\<close>

lemma submit_without_form:
  "formTargets c = [] \<Longrightarrow> submit c = Inl (MissingTarget ''form'')"
  by (simp add: submit_def target_def)

lemma submit_without_button:
  assumes "formTargets c = formTarget # others" and "buttonTargets c = []"
  shows "submit c = Inr (\<lparr>event_id = elem_id formTarget, scores = collect (fieldTargets c)\<rparr>, c)"
  using assms by (simp add: submit_def target_def hasTarget_def)

lemma submit_with_button:
  assumes "formTargets c = formTarget # others" and "buttonTargets c = b # bs"
  shows "submit c =
     Inr (\<lparr>event_id = elem_id formTarget, scores = collect (fieldTargets c)\<rparr>,
          c\<lparr>buttonTargets := b\<lparr>backgroundColor := ''yellow''\<rparr> # bs, statusValue := ''pending''\<rparr>)"
  using assms by (simp add: submit_def target_def hasTarget_def)

text \<open>
  Claim C1, as amended. For every Score Entry Form that has a form target, \<open>submit()\<close>
  builds the envelope from all field targets in order and dispatches the event whose
  detail is \<open>{ event_id: formTarget.id, scores: envelope }\<close>. The identifier of a field
  is the 4th segment of its id cut at dashes, and only at dashes. Under every key the
  envelope holds the value of the last field with that identifier, and nothing when no
  field has it. The statement leaves out the key \<open>__proto__\<close> and the forms without a
  form target.
\<close>

theorem submit_publishes_envelope:
  assumes "formTargets c = formTarget # others"
  shows "(\<exists>c'. submit c = Inr (\<lparr>event_id = elem_id formTarget, scores = collect (fieldTargets c)\<rparr>, c'))
     \<and> (\<forall>k. k \<noteq> ''__proto__'' \<longrightarrow>
            collect (fieldTargets c) k =
              map_option elem_value (find (\<lambda>val. form_id val = k) (rev (fieldTargets c))))"
  using assms
  by (simp add: submit_def target_def hasTarget_def Let_def collect_lookup split: list.splits)

text \<open>
  The submission scenario: the fields \<open>row-a-b-evt1\<close> with value \<open>"5"\<close> and
  \<open>row-a-b-evt2\<close> with value \<open>"2"\<close> give the envelope \<open>{evt1: "5", evt2: "2"}\<close>.
\<close>

theorem submit_publishes_envelope_witness:
  "formTargets scenario_form = [\<lparr>elem_id = ''evt'', elem_value = []\<rparr>]
   \<and> (\<exists>c'. submit scenario_form =
          Inr (\<lparr>event_id = ''evt'', scores = [''evt1'' \<mapsto> ''5'', ''evt2'' \<mapsto> ''2'']\<rparr>, c'))
   \<and> collect (fieldTargets scenario_form) ''evt1'' = Some ''5''
   \<and> collect (fieldTargets scenario_form) ''evt2'' = Some ''2''
   \<and> collect (fieldTargets scenario_form) ''evt3'' = None"
proof -
  have form: "formTargets scenario_form = \<lparr>elem_id = ''evt'', elem_value = []\<rparr> # []"
    by (simp add: scenario_form_def)
  have envelope: "collect (fieldTargets scenario_form) = [''evt1'' \<mapsto> ''5'', ''evt2'' \<mapsto> ''2'']"
    by (simp add: scenario_form_def collect_def form_id_def split_on_def at_def property_key_def
        obj_set_def)
  from submit_publishes_envelope [OF form] envelope form show ?thesis
    by simp
qed

text \<open>
  Claim C1, as stated, fails on \<open>colon_form\<close> and on \<open>form_without_form_target\<close>.
  The field \<open>row:a-b-c-evt1\<close> has the 4th colon/dash-delimited segment \<open>c\<close>, and the
  code, which cuts at dashes only, files its value under \<open>evt1\<close>. The field
  \<open>row-a-b-__proto__\<close> has the identifier \<open>__proto__\<close>, under which the envelope that
  the code dispatches has nothing. So the envelope dispatched is \<open>{evt1: "5"}\<close>, where
  the claim has \<open>{c: "5", __proto__: "2"}\<close>. On the form without a form target
  \<open>submit()\<close> throws at \<open>this.formTarget\<close> and dispatches nothing.
\<close>

theorem envelope_differs_from_claimed:
  "submit colon_form = Inr (\<lparr>event_id = ''evt'', scores = [''evt1'' \<mapsto> ''5'']\<rparr>, colon_form)
   \<and> claimed_scores (fieldTargets colon_form) = [''c'' \<mapsto> ''5'', ''__proto__'' \<mapsto> ''2'']
   \<and> collect (fieldTargets colon_form) \<noteq> claimed_scores (fieldTargets colon_form)
   \<and> submit form_without_form_target = Inl (MissingTarget ''form'')"
proof -
  have code: "collect (fieldTargets colon_form) = [''evt1'' \<mapsto> ''5'']"
    by (simp add: colon_form_def collect_def form_id_def split_on_def at_def property_key_def
        obj_set_def)
  have claimed: "claimed_scores (fieldTargets colon_form) = [''c'' \<mapsto> ''5'', ''__proto__'' \<mapsto> ''2'']"
    by (simp add: colon_form_def claimed_scores_def claimed_form_id_def at_def property_key_def)
  have "collect (fieldTargets colon_form) ''c'' \<noteq> claimed_scores (fieldTargets colon_form) ''c''"
    by (simp add: code claimed)
  then have differ: "collect (fieldTargets colon_form) \<noteq> claimed_scores (fieldTargets colon_form)"
    by metis
  have "submit colon_form =
      Inr (\<lparr>event_id = ''evt'', scores = collect (fieldTargets colon_form)\<rparr>, colon_form)"
    using submit_without_button [of colon_form "\<lparr>elem_id = ''evt'', elem_value = []\<rparr>" "[]"]
    by (simp add: colon_form_def)
  moreover have "submit form_without_form_target = Inl (MissingTarget ''form'')"
    by (rule submit_without_form) (simp add: form_without_form_target_def)
  ultimately show ?thesis using code claimed differ by simp
qed

subsection \<open>The completion signal\<close>

text \<open>
  What the listener does to a form that has a button target, and to a form that is
  not pending: a pending form turns completed and its button green; any other form is
  left alone. With or without a button, a delivery never takes a form from completed
  to pending, and a second delivery changes nothing.
\<close>

lemma completion_when_pending:
  assumes "statusValue c = ''pending''" and "buttonTargets c = b # bs"
  shows "on_scoreUpdateSubmitted c =
     Inr (c\<lparr>buttonTargets := b\<lparr>backgroundColor := ''green''\<rparr> # bs, statusValue := ''completed''\<rparr>)"
  using assms by (simp add: on_scoreUpdateSubmitted_def target_def)

lemma completion_when_not_pending:
  "statusValue c \<noteq> ''pending'' \<Longrightarrow> on_scoreUpdateSubmitted c = Inr c"
  by (simp add: on_scoreUpdateSubmitted_def)

lemma completion_without_button:
  assumes "statusValue c = ''pending''" and "buttonTargets c = []"
  shows "on_scoreUpdateSubmitted c = Inl (MissingTarget ''button'')"
  using assms by (simp add: on_scoreUpdateSubmitted_def target_def)

lemma deliver_never_backward:
  "statusValue (deliver c) = statusValue c
   \<or> (statusValue c = ''pending'' \<and> statusValue (deliver c) = ''completed'')"
  by (auto simp: deliver_def on_scoreUpdateSubmitted_def target_def split: list.splits)

lemma deliver_completed:
  "statusValue c = ''completed'' \<Longrightarrow> deliver c = c"
  by (simp add: deliver_def on_scoreUpdateSubmitted_def)

lemma deliver_twice: "deliver (deliver c) = deliver c"
  by (auto simp: deliver_def on_scoreUpdateSubmitted_def target_def split: list.splits)

lemma deliver_with_button:
  assumes "statusValue c = ''pending''" and "buttonTargets c \<noteq> []"
  shows "statusValue (deliver c) = ''completed''"
  using assms
  by (auto simp: deliver_def on_scoreUpdateSubmitted_def target_def split: list.splits)

lemma dispatch_with_buttons:
  assumes "i < length controllers" and "statusValue (controllers ! i) = ''pending''"
    and "buttonTargets (controllers ! i) \<noteq> []"
  shows "statusValue (dispatch_scoreUpdateSubmitted controllers ! i) = ''completed''"
  using assms by (simp add: dispatch_scoreUpdateSubmitted_def deliver_with_button)

text \<open>
  Claim C2 says that a completion signal received while the state is pending sets the
  state to completed, for every mounted form. On \<open>pending_without_button\<close> the
  listener throws at \<open>this.buttonTarget\<close> before it writes the status: after the
  delivery the form is as it was, still pending.
\<close>

theorem completion_leaves_buttonless_form_pending:
  "statusValue pending_without_button = ''pending''
   \<and> buttonTargets pending_without_button = []
   \<and> deliver pending_without_button = pending_without_button
   \<and> statusValue (deliver pending_without_button) \<noteq> ''completed''"
  by (simp add: pending_without_button_def deliver_def on_scoreUpdateSubmitted_def target_def)

text \<open>
  Claim C3 says that one completion signal takes every pending form to completed. Of
  the two pending forms \<open>pending_with_button\<close> and \<open>pending_without_button\<close>, one
  signal completes the first and leaves the second pending.
\<close>

theorem dispatch_skips_buttonless_form:
  "dispatch_scoreUpdateSubmitted [pending_with_button, pending_without_button]
     = [pending_with_button
          \<lparr>buttonTargets := [\<lparr>backgroundColor = ''green''\<rparr>], statusValue := ''completed''\<rparr>,
        pending_without_button]
   \<and> statusValue pending_without_button = ''pending''"
  by (simp add: dispatch_scoreUpdateSubmitted_def pending_without_button_def pending_with_button_def
      deliver_def on_scoreUpdateSubmitted_def target_def)

text \<open>
  Claim C8 says that a form without a status control gets through \<open>submit()\<close> and
  through a completion signal without an error. \<open>submit()\<close> does: on
  \<open>pending_without_button\<close> it dispatches the event and leaves the form as it is. The
  completion listener does not: on the same form it throws the missing-target error.
\<close>

theorem buttonless_submit_succeeds_completion_throws:
  "submit pending_without_button
     = Inr (\<lparr>event_id = ''evt'', scores = [''evt1'' \<mapsto> ''5'']\<rparr>, pending_without_button)
   \<and> on_scoreUpdateSubmitted pending_without_button = Inl (MissingTarget ''button'')"
  by (simp add: pending_without_button_def submit_def on_scoreUpdateSubmitted_def target_def
      hasTarget_def collect_def form_id_def split_on_def at_def property_key_def obj_set_def)

section \<open>Properties of the Status Banner\<close>

text \<open>
  Claim C9. Without an event the banner keeps its content; after any sequence of
  \<open>updateStatus\<close> events that ends with the event \<open>e\<close>, whatever came before, the
  banner's content is the status text of \<open>e\<close>, character for character.
\<close>

theorem banner_shows_last_status:
  "deliver_all element [] = element
   \<and> innerHTML (deliver_all element (events @ [e])) = status e"
  by (simp add: deliver_all_def on_updateStatus_def)

section \<open>Properties of the Filter/Redirect Coordinator\<close>

lemma params_delete_absent: "key \<notin> fst ` set (params_delete key ps)"
  by (auto simp: params_delete_def)

lemma set_first_others:
  "filter (\<lambda>q. fst q \<noteq> key) (set_first key v ps) = filter (\<lambda>q. fst q \<noteq> key) ps"
  by (induction ps) auto

lemma set_first_key:
  "key \<in> set (map fst ps) \<Longrightarrow> filter (\<lambda>q. fst q = key) (set_first key v ps) = [(key, v)]"
  by (induction ps) (auto simp: filter_empty_conv)

lemma params_set_others:
  "filter (\<lambda>q. fst q \<noteq> key) (params_set key v ps) = filter (\<lambda>q. fst q \<noteq> key) ps"
  by (simp add: params_set_def set_first_others)

lemma params_set_key:
  "filter (\<lambda>q. fst q = key) (params_set key v ps) = [(key, v)]"
  by (auto simp: params_set_def set_first_key filter_empty_conv)

lemma filter_params_all:
  "filter_params C search key ''all'' = params_delete key (URLSearchParams C search)"
  by (simp add: filter_params_def)

lemma filter_params_value:
  "v \<noteq> ''all'' \<Longrightarrow> filter_params C search key v = params_set key v (URLSearchParams C search)"
  by (simp add: filter_params_def)

subsection \<open>Reading the published string back\<close>

text \<open>
  A codec reads back what it wrote when decoding undoes encoding and an encoded text
  holds neither \<open>&\<close> nor \<open>=\<close>. For such a codec the string that \<open>filter()\<close> publishes,
  read by \<open>URLSearchParams\<close> again, gives exactly the parameters after \<open>set\<close> or
  \<open>delete\<close>. The codec on bytes is such a codec.
\<close>

lemma split_where_free:
  "\<forall>c \<in> set a. \<not> sep c \<Longrightarrow> split_where sep a = [a]"
  by (induction a) auto

lemma split_where_append:
  "\<forall>c \<in> set a. \<not> sep c \<Longrightarrow> sep d \<Longrightarrow>
     split_where sep (a @ d # rest) = a # split_where sep rest"
  by (induction a) auto

lemma split_on_join:
  assumes "ws \<noteq> []" and "\<forall>w \<in> set ws. sep \<notin> set w"
  shows "split_on sep (join [sep] ws) = ws"
  using assms unfolding split_on_def
proof (induction "[sep]" ws rule: join.induct)
  case 1
  then show ?case by simp
next
  case (2 x)
  then show ?case by (auto intro!: split_where_free)
next
  case (3 x y ys)
  then have "split_where (\<lambda>c. c = sep) (x @ sep # join [sep] (y # ys))
      = x # split_where (\<lambda>c. c = sep) (join [sep] (y # ys))"
    by (intro split_where_append) auto
  with 3 show ?case by simp
qed

lemma takeWhile_upto: "sep \<notin> set a \<Longrightarrow> takeWhile (\<lambda>c. c \<noteq> sep) (a @ sep # b) = a"
  by (induction a) auto

lemma dropWhile_upto: "sep \<notin> set a \<Longrightarrow> dropWhile (\<lambda>c. c \<noteq> sep) (a @ sep # b) = sep # b"
  by (induction a) auto

lemma name_value_piece:
  assumes "decode C (encode C n) = n" and "decode C (encode C v) = v"
    and "CHR ''='' \<notin> set (encode C n)"
  shows "name_value C (encode C n @ CHR ''='' # encode C v) = (n, v)"
  using assms by (simp add: name_value_def takeWhile_upto dropWhile_upto)

lemma URLSearchParams_toString:
  assumes dec: "\<And>s. decode C (encode C s) = s"
    and sep: "\<And>s. CHR ''&'' \<notin> set (encode C s) \<and> CHR ''='' \<notin> set (encode C s)"
  shows "URLSearchParams C (CHR ''?'' # params_toString C ps) = ps"
proof (cases ps)
  case Nil
  then show ?thesis
    by (simp add: URLSearchParams_def strip_question_def params_toString_def split_on_def)
next
  case (Cons p ps')
  let ?piece = "\<lambda>p. encode C (fst p) @ CHR ''='' # encode C (snd p)"
  have "split_on CHR ''&'' (join ''&'' (map ?piece ps)) = map ?piece ps"
    using Cons sep by (intro split_on_join) auto
  moreover have "filter (\<lambda>piece. piece \<noteq> []) (map ?piece ps) = map ?piece ps"
    by (induction ps) auto
  moreover have "map (name_value C) (map ?piece ps) = ps"
    using dec sep by (induction ps) (auto simp: name_value_piece)
  ultimately show ?thesis
    by (simp add: URLSearchParams_def strip_question_def params_toString_def)
qed

lemma published_params_read_back:
  assumes "\<And>s. decode C (encode C s) = s"
    and "\<And>s. CHR ''&'' \<notin> set (encode C s) \<and> CHR ''='' \<notin> set (encode C s)"
  shows "URLSearchParams C (params (filter_action C search key v)) = filter_params C search key v"
  using URLSearchParams_toString [OF assms] by (simp add: filter_action_def)

lemma percent_decode_other:
  "c \<noteq> CHR ''%'' \<Longrightarrow> percent_decode (c # t) = c # percent_decode t"
  by (cases t rule: percent_decode.cases) auto

lemma hex_digits_checked:
  "list_all (\<lambda>n. hex_value (hex_digit n) = Some n
       \<and> hex_digit n \<notin> {CHR ''+'', CHR ''&'', CHR ''='', CHR ''%''}) [0..<16]"
  by code_simp

lemma hex_value_hex_digit: "n < 16 \<Longrightarrow> hex_value (hex_digit n) = Some n"
  using hex_digits_checked by (simp add: list_all_iff del: upt_Suc)

lemma hex_digit_plain:
  "n < 16 \<Longrightarrow> hex_digit n \<notin> {CHR ''+'', CHR ''&'', CHR ''='', CHR ''%''}"
  using hex_digits_checked unfolding list_all_iff by (metis atLeastLessThan_iff set_upt zero_le)

lemma unreserved_plain:
  "unreserved c \<Longrightarrow> c \<notin> {CHR ''+'', CHR ''&'', CHR ''='', CHR ''%'', CHR '' ''}"
  by (auto simp: unreserved_def)

lemma of_char_split: "(of_char c :: nat) div 16 < 16" "(of_char c :: nat) mod 16 < 16"
proof -
  have "(of_char c :: nat) < 256" by simp
  then show "(of_char c :: nat) div 16 < 16" by arith
  show "(of_char c :: nat) mod 16 < 16" by simp
qed

lemma decode_encode_byte:
  "percent_decode (map (\<lambda>c. if c = CHR ''+'' then CHR '' '' else c) (encode_byte c) @ t)
     = c # percent_decode t"
proof (cases "c = CHR '' ''")
  case True
  then show ?thesis by (simp add: encode_byte_def percent_decode_other)
next
  case False
  show ?thesis
  proof (cases "unreserved c")
    case True
    with unreserved_plain [OF True] \<open>c \<noteq> CHR '' ''\<close> show ?thesis
      by (simp add: encode_byte_def percent_decode_other)
  next
    case False
    have "char_of (16 * ((of_char c :: nat) div 16) + of_char c mod 16) = c"
      by simp
    with False \<open>c \<noteq> CHR '' ''\<close> hex_digit_plain [OF of_char_split(1) [of c]]
      hex_digit_plain [OF of_char_split(2) [of c]] show ?thesis
      by (simp add: encode_byte_def hex_value_hex_digit of_char_split)
  qed
qed

lemma urlencoded_decode_encode: "decode urlencoded (encode urlencoded s) = s"
proof -
  have "percent_decode
      (map (\<lambda>c. if c = CHR ''+'' then CHR '' '' else c) (concat (map encode_byte s))) = s"
    by (induction s) (simp_all add: decode_encode_byte)
  then show ?thesis by (simp add: urlencoded_def)
qed

lemma encode_byte_plain: "d \<in> set (encode_byte c) \<Longrightarrow> d \<noteq> CHR ''&'' \<and> d \<noteq> CHR ''=''"
  using unreserved_plain [of c] hex_digit_plain [OF of_char_split(1) [of c]]
    hex_digit_plain [OF of_char_split(2) [of c]]
  by (auto simp: encode_byte_def split: if_splits)

lemma urlencoded_plain:
  "CHR ''&'' \<notin> set (encode urlencoded s) \<and> CHR ''='' \<notin> set (encode urlencoded s)"
  using encode_byte_plain by (auto simp: urlencoded_def)

lemma urlencoded_published_params_read_back:
  "URLSearchParams urlencoded (params (filter_action urlencoded search key v))
     = filter_params urlencoded search key v"
  by (rule published_params_read_back) (simp_all add: urlencoded_decode_encode urlencoded_plain)

text \<open>
  Claim C7. For every query string, key and value, \<open>filter()\<close> publishes \<open>?\<close> followed
  by the serialized parameters, and these parameters are the ones of the query string
  with one change: the pairs of the other keys are kept, in their order; for the value
  \<open>"all"\<close> no pair of the key is left; for any other value exactly one pair of the key is
  left, and it carries the new value. From \<open>?house=all&year=2024\<close>, the key \<open>house\<close> and
  the value \<open>red\<close> give \<open>?house=red&year=2024\<close>, and from there the value \<open>all\<close> gives
  \<open>?year=2024\<close>.
\<close>

theorem filter_sets_or_removes_key:
  "params (filter_action C search key v) = ''?'' @ params_toString C (filter_params C search key v)
   \<and> filter (\<lambda>q. fst q \<noteq> key) (filter_params C search key v)
       = filter (\<lambda>q. fst q \<noteq> key) (URLSearchParams C search)
   \<and> (v = ''all'' \<longrightarrow> key \<notin> fst ` set (filter_params C search key v))
   \<and> (v \<noteq> ''all'' \<longrightarrow> filter (\<lambda>q. fst q = key) (filter_params C search key v) = [(key, v)])"
proof (cases "v = ''all''")
  case True
  then show ?thesis
    using params_delete_absent [of key "URLSearchParams C search"]
    by (simp add: filter_action_def filter_params_all) (simp add: params_delete_def)
next
  case False
  then show ?thesis
    by (simp add: filter_action_def filter_params_value params_set_others params_set_key)
qed

theorem filter_sets_or_removes_key_witness:
  "params (filter_action urlencoded ''?house=all&year=2024'' ''house'' ''red'') = ''?house=red&year=2024''
   \<and> filter_params urlencoded ''?house=all&year=2024'' ''house'' ''red''
       = [(''house'', ''red''), (''year'', ''2024'')]
   \<and> params (filter_action urlencoded ''?house=red&year=2024'' ''house'' ''all'') = ''?year=2024''
   \<and> filter_params urlencoded ''?house=red&year=2024'' ''house'' ''all'' = [(''year'', ''2024'')]"
proof -
  have parsed:
    "URLSearchParams urlencoded ''?house=all&year=2024'' = [(''house'', ''all''), (''year'', ''2024'')]"
    "URLSearchParams urlencoded ''?house=red&year=2024'' = [(''house'', ''red''), (''year'', ''2024'')]"
    by (simp_all add: URLSearchParams_def strip_question_def split_on_def name_value_def
        urlencoded_def)
  have printed:
    "params_toString urlencoded [(''house'', ''red''), (''year'', ''2024'')] = ''house=red&year=2024''"
    "params_toString urlencoded [(''year'', ''2024'')] = ''year=2024''"
    by (simp_all add: params_toString_def urlencoded_def encode_byte_def unreserved_def)
  have red: "filter_params urlencoded ''?house=all&year=2024'' ''house'' ''red''
      = [(''house'', ''red''), (''year'', ''2024'')]"
    using parsed by (simp add: filter_params_def params_set_def)
  have all: "filter_params urlencoded ''?house=red&year=2024'' ''house'' ''all'' = [(''year'', ''2024'')]"
    using parsed by (simp add: filter_params_def params_delete_def)
  show ?thesis
    using filter_sets_or_removes_key [of urlencoded "''?house=all&year=2024''" "''house''" "''red''"]
      filter_sets_or_removes_key [of urlencoded "''?house=red&year=2024''" "''house''" "''all''"]
      red all printed
    by simp
qed

text \<open>
  Claim C10. When every pair of the query string has the key that \<open>filter()\<close> removes
  with the value \<open>"all"\<close> (the key is the only one present, or the query string has no
  pair at all), the parameters published are exactly \<open>"?"\<close>.
\<close>

theorem removing_only_key_publishes_question_mark:
  assumes "list_all (\<lambda>q. fst q = key) (URLSearchParams C search)"
  shows "filter_action C search key ''all'' = \<lparr>params = ''?''\<rparr>"
proof -
  have "params_delete key (URLSearchParams C search) = []"
    using assms by (simp add: params_delete_def filter_empty_conv list_all_iff)
  then show ?thesis
    by (simp add: filter_action_def filter_params_def params_toString_def)
qed

theorem removing_only_key_publishes_question_mark_witness:
  "list_all (\<lambda>q. fst q = ''house'') (URLSearchParams urlencoded ''?house=red'')
   \<and> filter_action urlencoded ''?house=red'' ''house'' ''all'' = \<lparr>params = ''?''\<rparr>
   \<and> list_all (\<lambda>q. fst q = ''house'') (URLSearchParams urlencoded [])
   \<and> filter_action urlencoded [] ''house'' ''all'' = \<lparr>params = ''?''\<rparr>"
proof -
  have one: "list_all (\<lambda>q. fst q = ''house'') (URLSearchParams urlencoded ''?house=red'')"
    by (simp add: URLSearchParams_def strip_question_def split_on_def name_value_def urlencoded_def)
  have none: "list_all (\<lambda>q. fst q = ''house'') (URLSearchParams urlencoded [])"
    by (simp add: URLSearchParams_def strip_question_def split_on_def)
  from removing_only_key_publishes_question_mark [OF one]
    removing_only_key_publishes_question_mark [OF none] one none
  show ?thesis by simp
qed

end
